theory Spec2Isabelle
  imports Main "HOL-Library.Word"
begin

section \<open>Configuration (pkg/schema/v1)\<close>

text \<open>
  The configuration structs as the schema package declares them. The pipeline reads
  \<open>Base\<close>, \<open>Tag\<close> and \<open>Platforms\<close> only; the other fields are carried along.
\<close>

type_synonym int64 = "64 word"
type_synonym Duration = int

record ContainConfigOverrides =
  Base :: bool

record ContainConfigStatus =
  Template :: bool
  Md5 :: string
  Sha256 :: string
  Overrides :: ContainConfigOverrides

record ContainConfigSync =
  PodSelector :: string
  Namespace :: string
  GetAttemptsMax :: int64
  GetAttemptsWait :: Duration

record LayerAttributes =
  Uid :: "16 word"
  Gid :: "16 word"
  FileMode :: "32 word"

record LocalDir =
  Path :: string
  ContainerPath :: string
  Ignore :: "string list"
  MaxFiles :: int64
  MaxSize :: string

record Layer =
  Attributes :: LayerAttributes
  LocalDir :: LocalDir

record ContainConfig =
  Status :: ContainConfigStatus
  Base :: string
  Tag :: string
  Platforms :: "string list"
  Layers :: "Layer list"
  Sync :: ContainConfigSync

section \<open>Values of the registry client\<close>

text \<open>
  \<open>types.MediaType\<close> is a string type in Go; the three constants the pipeline compares
  against and assigns are the registry client's.
\<close>

type_synonym MediaType = string

definition OCIManifestSchema1 :: MediaType where
  "OCIManifestSchema1 = ''application/vnd.oci.image.manifest.v1+json''"

definition OCILayer :: MediaType where
  "OCILayer = ''application/vnd.oci.image.layer.v1.tar+gzip''"

definition DockerLayer :: MediaType where
  "DockerLayer = ''application/vnd.docker.image.rootfs.diff.tar.gzip''"

definition AnnotationBaseImageDigest :: string where
  "AnnotationBaseImageDigest = ''org.opencontainers.image.base.digest''"

definition AnnotationBaseImageName :: string where
  "AnnotationBaseImageName = ''org.opencontainers.image.base.name''"

text \<open>
  A Go \<open>error\<close> value: one produced by a collaborator, or one built by
  \<open>fmt.Errorf(prefix + "%w", inner)\<close>, which wraps \<open>inner\<close> behind a context prefix.
\<close>

datatype error = Failure string | Errorf string error

text \<open>\<open>v1.Hash\<close> and its \<open>String()\<close>; the zero value prints as a lone colon.\<close>

record v1_Hash =
  Algorithm :: string
  Hex :: string

definition Hash_String :: "v1_Hash \<Rightarrow> string" where
  "Hash_String h = Algorithm h @ '':'' @ Hex h"

text \<open>
  \<open>name.Reference\<close> is an interface with the two implementations \<open>name.Tag\<close> and
  \<open>name.Digest\<close>; a nil interface value is \<open>None\<close> of the option type.
\<close>

record name_Repository =
  RegistryStr :: string
  RepositoryStr :: string

datatype name_Reference =
    name_Tag name_Repository string
  | name_Digest name_Repository string

fun Context :: "name_Reference \<Rightarrow> name_Repository" where
  "Context (name_Tag r t) = r"
| "Context (name_Digest r d) = r"

fun Identifier :: "name_Reference \<Rightarrow> string" where
  "Identifier (name_Tag r t) = t"
| "Identifier (name_Digest r d) = d"

fun Reference_String :: "name_Reference \<Rightarrow> string" where
  "Reference_String (name_Tag r t) = RegistryStr r @ ''/'' @ RepositoryStr r @ '':'' @ t"
| "Reference_String (name_Digest r d) = RegistryStr r @ ''/'' @ RepositoryStr r @ ''@'' @ d"


text \<open>
  \<open>v1.Layer\<close> is opaque to the pipeline: only its descriptors exist here.
  \<open>v1.Image\<close> follows section 3 of the specification: a manifest with an ordered layer
  list, annotations, a config and a media type. \<open>MediaType\<close> holds what the method
  \<open>MediaType()\<close> returns, an error or the manifest's media type.
\<close>

record v1_Layer =
  layerDigest :: string
  layerSize :: int64
  layerMediaType :: MediaType

record v1_Image =
  layers :: "v1_Layer list"
  annotations :: "string \<rightharpoonup> string"
  configFile :: string
  MediaType :: "error + MediaType"

text \<open>\<open>v1.Update\<close>: a progress event of a registry write.\<close>

record v1_Update =
  Complete :: int64
  Total :: int64
  Error :: "error option"

datatype remote_Option = WithProgress | OtherOption string

record crane_Options =
  Remote :: "remote_Option list"

text \<open>
  What the goroutine running \<open>remote.Write\<close> shows to the orchestrator: the updates it
  sends on the progress channel, whether it closes that channel afterwards, and the value
  \<open>remote.Write\<close> returns (\<open>None\<close> is Go's nil error), which the goroutine sends on the
  result channel.
\<close>

record transfer =
  updates :: "v1_Update list"
  closes :: bool
  result :: "error option"

section \<open>Collaborators, the world, and how a call can end\<close>

text \<open>
  The collaborators the pipeline calls but does not contain: the reference parser, the
  registry (pull, digest computation, write), the clock, and the scheduler's choice of
  whether the goroutine's send on the result channel precedes the orchestrator's.
  \<open>now env k\<close> is what the \<open>k\<close>-th call of \<open>time.Now()\<close> returns, in nanoseconds.
\<close>

record env =
  ParseReference :: "string \<Rightarrow> error + name_Reference"
  remote_Image :: "name_Reference \<Rightarrow> remote_Option list \<Rightarrow> error + v1_Image"
  Digest :: "v1_Image \<Rightarrow> error + v1_Hash"
  layersError :: "v1_Layer list \<Rightarrow> error option"
  remote_Write :: "name_Reference option \<Rightarrow> v1_Image \<Rightarrow> remote_Option list \<Rightarrow> transfer"
  now :: "nat \<Rightarrow> int"
  writerFirst :: bool

datatype level = DebugLevel | InfoLevel | WarnLevel | ErrorLevel | FatalLevel

datatype zap_Field =
    zap_String string string
  | zap_Strings string "string list"
  | zap_Int64 string int64
  | zap_Error error

text \<open>
  A log entry. \<open>at\<close> is the latest reading of the clock the program had taken when the
  entry was logged; it is what the timing properties of the progress lines are stated on.
\<close>

datatype entry = Entry (at: int) (lvl: level) (msg: string) (args: "zap_Field list")

record world =
  logs :: "entry list"
  clockReads :: nat
  lastNow :: int
  pulls :: "name_Reference list"
  writes :: "(name_Reference option \<times> v1_Image) list"

text \<open>
  A call returns a value, ends the process (\<open>zap\<close>'s \<open>Fatal\<close> logs and then calls
  \<open>os.Exit\<close>), panics on a nil dereference, or blocks forever on a channel.
\<close>

datatype 'a outcome = Returns 'a | Exits | Panics | Blocks

definition zap_log :: "level \<Rightarrow> string \<Rightarrow> zap_Field list \<Rightarrow> world \<Rightarrow> world" where
  "zap_log l m fs w = w\<lparr>logs := logs w @ [Entry (lastNow w) l m fs]\<rparr>"

definition time_Now :: "env \<Rightarrow> world \<Rightarrow> int \<times> world" where
  "time_Now env w =
     (now env (clockReads w),
      w\<lparr>clockReads := Suc (clockReads w), lastNow := now env (clockReads w)\<rparr>)"

text \<open>
  \<open>time.ParseDuration\<close> of the standard library, at the one unit the program's constant
  uses: a decimal number of seconds, in nanoseconds. Any other string is an error here.
\<close>

fun decimal :: "string \<Rightarrow> nat \<Rightarrow> nat option" where
  "decimal [] acc = Some acc"
| "decimal (c # cs) acc =
     (if (48::nat) \<le> of_char c \<and> of_char c \<le> (57::nat)
      then decimal cs (10 * acc + (of_char c - 48))
      else None)"

definition time_ParseDuration :: "string \<Rightarrow> error + Duration" where
  "time_ParseDuration s =
     (if 2 \<le> length s \<and> last s = CHR ''s''
      then (case decimal (butlast s) 0 of
              Some n \<Rightarrow> Inr (int n * 1000000000)
            | None \<Rightarrow> Inl (Failure ''time: invalid duration''))
      else Inl (Failure ''time: invalid duration''))"

text \<open>
  Modelled from the spec: \<open>mutate.AppendLayers\<close> of the registry client (section 4.3).
  It yields a new image whose layer list is the base's with the supplied layers appended
  in call order, every other field untouched; it accepts zero layers; combining layers
  can fail, which is the collaborator's to decide (\<open>layersError\<close>).
\<close>

definition mutate_AppendLayers :: "env \<Rightarrow> v1_Image \<Rightarrow> v1_Layer list \<Rightarrow> error + v1_Image" where
  "mutate_AppendLayers env b ls =
     (if ls = [] then Inr b
      else (case layersError env ls of
              Some err \<Rightarrow> Inl err
            | None \<Rightarrow> Inr (b\<lparr>layers := layers b @ ls\<rparr>)))"

text \<open>
  Modelled from the spec: \<open>mutate.Annotations\<close> of the registry client (section 4.4).
  It yields a new image whose manifest annotations are the old ones overridden by the
  given ones.
\<close>

definition mutate_Annotations :: "v1_Image \<Rightarrow> (string \<rightharpoonup> string) \<Rightarrow> v1_Image" where
  "mutate_Annotations img a = img\<lparr>annotations := annotations img ++ a\<rparr>"

section \<open>The appender (package appender)\<close>

definition progressReportMinInterval :: string where
  "progressReportMinInterval = ''1s''"

record Appender =
  config :: ContainConfig
  baseRef :: "name_Reference option"
  tagRef :: "name_Reference option"
  mediaType :: MediaType
  layerType :: MediaType
  craneOptions :: crane_Options

text \<open>
  \<open>New\<close>. A parse failure is logged and construction goes on with a nil reference. The
  debug line for the base then calls \<open>String()\<close> on the nil interface, which panics; the
  debug line for the destination is guarded. The error result is always nil.
\<close>

definition New :: "env \<Rightarrow> ContainConfig \<Rightarrow> world \<Rightarrow> (Appender \<times> error option) outcome \<times> world" where
  "New env cfg w =
     (let c = \<lparr>config = cfg, baseRef = None, tagRef = None, mediaType = [], layerType = [],
               craneOptions = \<lparr>Remote = []\<rparr>\<rparr>;
          (c1, w1) = (case ParseReference env (ContainConfig.Base cfg) of
                        Inl err \<Rightarrow> (c, zap_log ErrorLevel ''Failed to parse base''
                                         [zap_String ''ref'' (ContainConfig.Base cfg), zap_Error err] w)
                      | Inr r \<Rightarrow> (c\<lparr>baseRef := Some r\<rparr>, w))
      in case baseRef c1 of
           None \<Rightarrow> (Panics, w1)
         | Some b \<Rightarrow>
            (let w2 = zap_log DebugLevel ''base image'' [zap_String ''ref'' (Reference_String b)] w1;
                 (c2, w3) = (case ParseReference env (Tag cfg) of
                               Inl err \<Rightarrow> (c1, zap_log ErrorLevel ''Failed to parse result image ref''
                                                 [zap_String ''ref'' (Tag cfg), zap_Error err] w2)
                             | Inr r \<Rightarrow> (c1\<lparr>tagRef := Some r\<rparr>, w2));
                 w4 = (case tagRef c2 of
                         Some t \<Rightarrow> zap_log DebugLevel ''target image''
                                     [zap_String ''ref'' (Reference_String t)] w3
                       | None \<Rightarrow> w3)
             in (Returns (c2, None), w4)))"

text \<open>\<open>Options\<close>: the fatal log ends the process; \<open>return nil\<close> is never reached.\<close>

definition Options :: "Appender \<Rightarrow> world \<Rightarrow> remote_Option list option outcome \<times> world" where
  "Options c w = (Exits, zap_log FatalLevel ''TODO how?'' [] w)"

text \<open>
  \<open>base\<close>. With a nil \<open>baseRef\<close> the pull dereferences the nil interface. The pull is
  recorded in \<open>pulls\<close>.
\<close>

definition base :: "env \<Rightarrow> Appender \<Rightarrow> world \<Rightarrow> (error + v1_Image) outcome \<times> Appender \<times> world" where
  "base env c w =
     (if mediaType c \<noteq> []
      then (Exits, c, zap_log FatalLevel ''contain.Base() has already been invoked'' [] w)
      else (case baseRef c of
              None \<Rightarrow> (Panics, c, w)
            | Some ref \<Rightarrow>
               (let w1 = w\<lparr>pulls := pulls w @ [ref]\<rparr> in
                case remote_Image env ref (Remote (craneOptions c)) of
                  Inl err \<Rightarrow>
                    (Returns (Inl (Errorf (''pulling '' @ Reference_String ref @ '': '') err)), c, w1)
                | Inr b \<Rightarrow>
                   (case MediaType b of
                      Inl err \<Rightarrow>
                        (Returns (Inl (Errorf ''getting base image media type: '' err)), c, w1)
                    | Inr mt \<Rightarrow>
                        (Returns (Inr b),
                         c\<lparr>layerType := (if mt = OCIManifestSchema1 then OCILayer else DockerLayer),
                           mediaType := mt\<rparr>,
                         w1)))))"

text \<open>\<open>annotate\<close>.\<close>

definition annotate :: "Appender \<Rightarrow> v1_Image \<Rightarrow> v1_Hash \<Rightarrow> v1_Image" where
  "annotate c img baseDigest =
     (let a = [AnnotationBaseImageDigest \<mapsto> Hash_String baseDigest];
          a' = (case baseRef c of
                  Some (name_Tag r t) \<Rightarrow>
                    a(AnnotationBaseImageName \<mapsto>
                        ''/'' @ RepositoryStr (Context (name_Tag r t)) @ '':'' @ Identifier (name_Tag r t))
                | _ \<Rightarrow> a)
      in mutate_Annotations img a')"

text \<open>
  The loop of \<open>push\<close> over the progress channel. It returns the error it forwarded to the
  result channel when an update carried one (the \<open>break\<close>), the next-allowed timestamp,
  and the world.
\<close>

fun drain :: "env \<Rightarrow> Duration \<Rightarrow> v1_Update list \<Rightarrow> int \<Rightarrow> world \<Rightarrow> error option \<times> int \<times> world" where
  "drain env debounce [] nextProgress w = (None, nextProgress, w)"
| "drain env debounce (u # us) nextProgress w =
     (case Error u of
        Some err \<Rightarrow> (Some err, nextProgress, zap_log ErrorLevel ''push update'' [zap_Error err] w)
      | None \<Rightarrow>
         (if Complete u = Total u
          then drain env debounce us nextProgress
                 (zap_log InfoLevel ''pushed''
                    [zap_Int64 ''completed'' (Complete u), zap_Int64 ''total'' (Total u)] w)
          else (let (t, w1) = time_Now env w in
                if t > nextProgress
                then (let (t', w2) = time_Now env w1 in
                      drain env debounce us (t' + debounce)
                        (zap_log InfoLevel ''push''
                           [zap_Int64 ''completed'' (Complete u), zap_Int64 ''total'' (Total u)] w2))
                else drain env debounce us nextProgress w1)))"

text \<open>
  The result channel (capacity 2, so neither send blocks), as the order in which its
  values arrive: the goroutine's send of what \<open>remote.Write\<close> returned, and the
  orchestrator's send of a forwarded update error, if it made one.
\<close>

definition errChan :: "env \<Rightarrow> transfer \<Rightarrow> error option \<Rightarrow> error option list" where
  "errChan env tr forwarded =
     (if writerFirst env then [result tr] else [])
     @ (case forwarded of Some err \<Rightarrow> [Some err] | None \<Rightarrow> [])
     @ (if writerFirst env then [] else [result tr])"

definition receive :: "'a list \<Rightarrow> 'a outcome" where
  "receive q = (case q of [] \<Rightarrow> Blocks | v # _ \<Rightarrow> Returns v)"

text \<open>
  \<open>push\<close>. The write is recorded in \<open>writes\<close> when the goroutine is started. The range
  loop ends at an update with an error or when the channel is closed; on a channel that
  is never closed it blocks.
\<close>

definition push :: "env \<Rightarrow> Appender \<Rightarrow> v1_Image \<Rightarrow> world \<Rightarrow> error option outcome \<times> world" where
  "push env c img w =
     (case MediaType img of
        Inl err \<Rightarrow> (Returns (Some err), w)
      | Inr mt \<Rightarrow>
         (let w1 = zap_log InfoLevel ''pushing'' [zap_String ''mediaType'' mt] w in
          case time_ParseDuration progressReportMinInterval of
            Inl err \<Rightarrow>
              (Exits, zap_log FatalLevel ''failed to parse debounce interval''
                        [zap_String ''value'' progressReportMinInterval, zap_Error err] w1)
          | Inr debounce \<Rightarrow>
             (let options = Remote (craneOptions c) @ [WithProgress];
                  tr = remote_Write env (tagRef c) img options;
                  w2 = w1\<lparr>writes := writes w1 @ [(tagRef c, img)]\<rparr>;
                  (t0, w3) = time_Now env w2;
                  (forwarded, nextProgress, w4) = drain env debounce (updates tr) (t0 + debounce) w3
              in if forwarded = None \<and> \<not> closes tr then (Blocks, w4)
                 else (receive (errChan env tr forwarded), w4))))"

text \<open>
  \<open>Append\<close>. When \<open>base.Digest()\<close> fails the error is logged and execution goes on with
  the zero hash. The check of \<open>err\<close> after \<open>annotate\<close> re-reads the error of
  \<open>mutate.AppendLayers\<close>, which is nil there.
\<close>

definition Append :: "env \<Rightarrow> Appender \<Rightarrow> v1_Layer list \<Rightarrow> world \<Rightarrow> (v1_Hash \<times> error option) outcome \<times> Appender \<times> world" where
  "Append env c ls w =
     (let w1 = (if length (Platforms (config c)) > 1
                then zap_log WarnLevel ''unsupported multiple platforms, falling back to all''
                       [zap_Strings ''platforms'' (Platforms (config c))] w
                else w);
          w2 = (if length (Platforms (config c)) = 1
                then zap_log WarnLevel ''unsupported single platform, falling back to all''
                       [zap_String ''platform'' (Platforms (config c) ! 0)] w1
                else w1);
          noresult = \<lparr>Algorithm = [], Hex = []\<rparr>
      in case base env c w2 of
           (Exits, c1, w3) \<Rightarrow> (Exits, c1, w3)
         | (Panics, c1, w3) \<Rightarrow> (Panics, c1, w3)
         | (Blocks, c1, w3) \<Rightarrow> (Blocks, c1, w3)
         | (Returns (Inl err), c1, w3) \<Rightarrow>
             (Returns (noresult, Some err), c1,
              zap_log ErrorLevel ''Failed to get base image'' [zap_Error err] w3)
         | (Returns (Inr b), c1, w3) \<Rightarrow>
            (let (baseDigest, w4) =
                   (case Digest env b of
                      Inl err \<Rightarrow> (noresult, zap_log ErrorLevel ''Failed to get base image digest''
                                              [zap_Error err] w3)
                    | Inr d \<Rightarrow> (d, w3))
             in case mutate_AppendLayers env b ls of
                  Inl err \<Rightarrow>
                    (Returns (noresult, Some err), c1,
                     zap_log ErrorLevel ''Failed to append layers'' [zap_Error err] w4)
                | Inr img0 \<Rightarrow>
                   (let img = annotate c1 img0 baseDigest in
                    case Digest env img of
                      Inl err \<Rightarrow>
                        (Returns (noresult, Some err), c1,
                         zap_log ErrorLevel ''Failed to get result image digest'' [zap_Error err] w4)
                    | Inr imgDigest \<Rightarrow>
                       (case push env c1 img w4 of
                          (Returns (Some err), w5) \<Rightarrow>
                            (Returns (noresult, Some err), c1,
                             zap_log ErrorLevel ''Failed to push'' [zap_Error err] w5)
                        | (Returns None, w5) \<Rightarrow>
                            (Returns (imgDigest, None), c1,
                             zap_log InfoLevel ''pushed''
                               [zap_String ''digest'' (Hash_String imgDigest)] w5)
                        | (Exits, w5) \<Rightarrow> (Exits, c1, w5)
                        | (Panics, w5) \<Rightarrow> (Panics, c1, w5)
                        | (Blocks, w5) \<Rightarrow> (Blocks, c1, w5)))))"


section \<open>Notions used to state the properties\<close>

text \<open>The log lines a call added, given the world before and after it.\<close>

definition newLogs :: "world \<Rightarrow> world \<Rightarrow> entry list" where
  "newLogs w w' = drop (length (logs w)) (logs w')"

text \<open>A world with one more log line at position \<open>n\<close> of its log.\<close>

definition insertLog :: "nat \<Rightarrow> entry \<Rightarrow> world \<Rightarrow> world" where
  "insertLog n e w = w\<lparr>logs := take n (logs w) @ e # drop n (logs w)\<rparr>"

text \<open>The error of the first update that carries one.\<close>

definition firstError :: "v1_Update list \<Rightarrow> error option" where
  "firstError us = (case List.find (\<lambda>u. Error u \<noteq> None) us of Some u \<Rightarrow> Error u | None \<Rightarrow> None)"

text \<open>The two fields of a progress or completion line.\<close>

definition completionFields :: "v1_Update \<Rightarrow> zap_Field list" where
  "completionFields u = [zap_Int64 ''completed'' (Complete u), zap_Int64 ''total'' (Total u)]"

text \<open>The world after the platform warnings at the head of \<open>Append\<close>.\<close>

definition platformWarned :: "Appender \<Rightarrow> world \<Rightarrow> world" where
  "platformWarned c w =
     (if length (Platforms (config c)) > 1
      then zap_log WarnLevel ''unsupported multiple platforms, falling back to all''
             [zap_Strings ''platforms'' (Platforms (config c))] w
      else if length (Platforms (config c)) = 1
      then zap_log WarnLevel ''unsupported single platform, falling back to all''
             [zap_String ''platform'' (Platforms (config c) ! 0)] w
      else w)"

text \<open>The warning \<open>Append\<close> logs for a non-empty platform list, logged at time \<open>t\<close>.\<close>

definition platformWarning :: "string list \<Rightarrow> int \<Rightarrow> entry" where
  "platformWarning ps t =
     (if length ps > 1
      then Entry t WarnLevel ''unsupported multiple platforms, falling back to all''
             [zap_Strings ''platforms'' ps]
      else Entry t WarnLevel ''unsupported single platform, falling back to all''
             [zap_String ''platform'' (ps ! 0)])"

section \<open>A small registry to run the pipeline on\<close>

text \<open>
  One base image behind \<open>busybox:latest\<close>, one destination, a parser that knows these
  two strings and rejects every other one, and a clock that advances 0.6 seconds per
  reading. The variants differ in one collaborator each.
\<close>

definition busybox :: name_Reference where
  "busybox = name_Tag \<lparr>RegistryStr = ''index.docker.io'', RepositoryStr = ''library/busybox''\<rparr> ''latest''"

definition target :: name_Reference where
  "target = name_Tag \<lparr>RegistryStr = ''localhost:22500'', RepositoryStr = ''img''\<rparr> ''test''"

definition busyboxImage :: v1_Image where
  "busyboxImage =
     \<lparr>layers = [\<lparr>layerDigest = ''sha256:01'', layerSize = 100, layerMediaType = OCILayer\<rparr>],
      annotations = Map.empty, configFile = ''busybox-config'',
      MediaType = Inr OCIManifestSchema1\<rparr>"

definition testEnv :: env where
  "testEnv =
     \<lparr>ParseReference = (\<lambda>s. if s = ''busybox:latest'' then Inr busybox
                            else if s = ''localhost:22500/img:test'' then Inr target
                            else Inl (Failure (''could not parse reference: '' @ s))),
      remote_Image = (\<lambda>r opts. if r = busybox then Inr busyboxImage
                                else Inl (Failure ''manifest unknown'')),
      Digest = (\<lambda>img. Inr \<lparr>Algorithm = ''sha256'', Hex = concat (map layerDigest (layers img))\<rparr>),
      layersError = (\<lambda>ls. None),
      remote_Write = (\<lambda>r img opts. \<lparr>updates = [], closes = True, result = None\<rparr>),
      now = (\<lambda>k. int k * 600000000),
      writerFirst = False\<rparr>"

definition testConfig :: ContainConfig where
  "testConfig =
     \<lparr>Status = \<lparr>Template = False, Md5 = [], Sha256 = [],
                Overrides = \<lparr>ContainConfigOverrides.Base = False\<rparr>\<rparr>,
      Base = ''busybox:latest'', Tag = ''localhost:22500/img:test'', Platforms = [], Layers = [],
      Sync = \<lparr>PodSelector = [], Namespace = [], GetAttemptsMax = 0, GetAttemptsWait = 0\<rparr>\<rparr>"

definition world0 :: world where
  "world0 = \<lparr>logs = [], clockReads = 0, lastNow = 0, pulls = [], writes = []\<rparr>"

definition freshAppender :: Appender where
  "freshAppender =
     \<lparr>config = testConfig, baseRef = Some busybox, tagRef = Some target,
      mediaType = [], layerType = [], craneOptions = \<lparr>Remote = []\<rparr>\<rparr>"

definition resolvedAppender :: Appender where
  "resolvedAppender = freshAppender\<lparr>layerType := OCILayer, mediaType := OCIManifestSchema1\<rparr>"

definition malformedTagConfig :: ContainConfig where
  "malformedTagConfig = testConfig\<lparr>Tag := ''localhost:22500/IMG test''\<rparr>"

definition digestFailEnv :: env where
  "digestFailEnv =
     testEnv\<lparr>Digest := (\<lambda>img. if annotations img AnnotationBaseImageDigest = None
                               then Inr \<lparr>Algorithm = ''sha256'', Hex = ''01''\<rparr>
                               else Inl (Failure ''cannot read manifest''))\<rparr>"


definition progressEnv :: env where
  "progressEnv =
     testEnv\<lparr>remote_Write := (\<lambda>r img opts.
        \<lparr>updates = [\<lparr>Complete = 10, Total = 100, Error = None\<rparr>,
                    \<lparr>Complete = 30, Total = 100, Error = None\<rparr>,
                    \<lparr>Complete = 50, Total = 100, Error = None\<rparr>,
                    \<lparr>Complete = 70, Total = 100, Error = None\<rparr>,
                    \<lparr>Complete = 100, Total = 100, Error = None\<rparr>],
         closes = True,
         result = None\<rparr>)\<rparr>"

definition baseDigestFailEnv :: env where
  "baseDigestFailEnv =
     testEnv\<lparr>Digest := (\<lambda>img. if annotations img AnnotationBaseImageDigest = None
                                   then Inl (Failure ''cannot read manifest'')
                                   else Inr \<lparr>Algorithm = ''sha256'', Hex = ''02''\<rparr>)\<rparr>"






definition repeatEnv :: env where
  "repeatEnv =
     testEnv\<lparr>remote_Write := (\<lambda>r img opts.
        \<lparr>updates = [\<lparr>Complete = 100, Total = 100, Error = None\<rparr>,
                    \<lparr>Complete = 100, Total = 100, Error = None\<rparr>],
         closes = True,
         result = None\<rparr>)\<rparr>"

definition shortEnv :: env where
  "shortEnv =
     testEnv\<lparr>remote_Write := (\<lambda>r img opts.
        \<lparr>updates = [\<lparr>Complete = 50, Total = 100, Error = None\<rparr>],
         closes = True,
         result = None\<rparr>)\<rparr>"

definition busyboxDigest :: v1_Hash where
  "busyboxDigest = \<lparr>Algorithm = ''sha256'', Hex = ''sha256:01''\<rparr>"

definition platformAppender :: Appender where
  "platformAppender = freshAppender\<lparr>config := testConfig\<lparr>Platforms := [''linux/amd64'', ''linux/arm64'']\<rparr>\<rparr>"

section \<open>Basic facts\<close>


lemma annotate_resolved [simp]:
  "annotate (c\<lparr>layerType := lt, mediaType := mt\<rparr>) img d = annotate c img d"
  by (simp add: annotate_def)

lemma annotate_MediaType [simp]: "MediaType (annotate c img d) = MediaType img"
  by (simp add: annotate_def mutate_Annotations_def Let_def split: option.splits name_Reference.splits)

lemma base_succeeds:
  assumes "mediaType c = []" and "baseRef c = Some ref"
    and "remote_Image env ref (Remote (craneOptions c)) = Inr b" and "MediaType b = Inr mt"
  shows "base env c w =
           (Returns (Inr b),
            c\<lparr>layerType := (if mt = OCIManifestSchema1 then OCILayer else DockerLayer), mediaType := mt\<rparr>,
            w\<lparr>pulls := pulls w @ [ref]\<rparr>)"
  using assms by (simp add: base_def)

lemma freshAppender_fields:
  "mediaType freshAppender = []" "layerType freshAppender = []"
  "baseRef freshAppender = Some busybox" "tagRef freshAppender = Some target"
  "craneOptions freshAppender = \<lparr>Remote = []\<rparr>" "Platforms (config freshAppender) = []"
  by (simp_all add: freshAppender_def testConfig_def)

lemma busyboxImage_MediaType: "MediaType busyboxImage = Inr OCIManifestSchema1"
  by (simp add: busyboxImage_def)

lemma annotated_example:
  "annotations (annotate freshAppender busyboxImage d) AnnotationBaseImageDigest \<noteq> None"
  "annotations busyboxImage AnnotationBaseImageDigest = None"
  by (simp_all add: annotate_def mutate_Annotations_def freshAppender_def busybox_def
        busyboxImage_def AnnotationBaseImageDigest_def AnnotationBaseImageName_def)

lemma base_example:
  "base testEnv freshAppender world0 =
     (Returns (Inr busyboxImage), resolvedAppender, world0\<lparr>pulls := [busybox]\<rparr>)"
  by (simp add: base_def testEnv_def freshAppender_def resolvedAppender_def world0_def
        busyboxImage_def)


section \<open>Construction\<close>

text \<open>
  Claim C1 says that \<open>New\<close> fails with an invalid-reference error whenever the base or the
  destination string does not parse. It does not: with a destination string the parser
  rejects, \<open>New\<close> logs the failure and returns the appender with a nil destination
  reference and a nil error.
\<close>

theorem New_malformed_tag_counterexample:
  "ParseReference testEnv (Tag malformedTagConfig) =
     Inl (Failure ''could not parse reference: localhost:22500/IMG test'')
   \<and> fst (New testEnv malformedTagConfig world0) =
       Returns (\<lparr>config = malformedTagConfig, baseRef = Some busybox, tagRef = None,
                 mediaType = [], layerType = [], craneOptions = \<lparr>Remote = []\<rparr>\<rparr>, None)"
  by (simp add: New_def testEnv_def malformedTagConfig_def testConfig_def world0_def
        zap_log_def Let_def)

text \<open>
  Claim C1, as amended: whenever the base string parses, \<open>New\<close> returns an appender and
  a nil error. Its destination reference is the parsed destination, or nil when the
  destination string does not parse, and in that case an error line naming the string is
  logged. \<open>New\<close> itself neither pulls nor writes.
\<close>

theorem New_returns_without_error:
  assumes "ParseReference env (ContainConfig.Base cfg) = Inr b"
  shows "\<exists>c w'. New env cfg w = (Returns (c, None), w')
           \<and> config c = cfg \<and> baseRef c = Some b
           \<and> tagRef c = (case ParseReference env (Tag cfg) of Inr t \<Rightarrow> Some t | Inl err \<Rightarrow> None)
           \<and> pulls w' = pulls w \<and> writes w' = writes w
           \<and> (\<forall>err. ParseReference env (Tag cfg) = Inl err \<longrightarrow>
                 Entry (lastNow w) ErrorLevel ''Failed to parse result image ref''
                   [zap_String ''ref'' (Tag cfg), zap_Error err] \<in> set (logs w'))"
  using assms
  by (auto simp: New_def Let_def zap_log_def split: sum.splits option.splits)

theorem New_returns_without_error_witness:
  "ParseReference testEnv (ContainConfig.Base malformedTagConfig) = Inr busybox
   \<and> (\<exists>c w'. New testEnv malformedTagConfig world0 = (Returns (c, None), w')
          \<and> baseRef c = Some busybox \<and> tagRef c = None \<and> pulls w' = [] \<and> writes w' = [])"
proof -
  have h: "ParseReference testEnv (ContainConfig.Base malformedTagConfig) = Inr busybox"
    by (simp add: testEnv_def malformedTagConfig_def testConfig_def)
  have t: "ParseReference testEnv (Tag malformedTagConfig) =
             Inl (Failure ''could not parse reference: localhost:22500/IMG test'')"
    by (simp add: testEnv_def malformedTagConfig_def testConfig_def)
  show ?thesis
    using New_returns_without_error [OF h, of world0] h t
    by (auto simp: world0_def)
qed

text \<open>
  Claim C10: \<open>Options\<close> logs at fatal level, which ends the process, whatever the state of
  the appender and of the world; it never returns a value.
\<close>

theorem Options_never_returns:
  "fst (Options c w) = Exits \<and> fst (Options c w) \<noteq> Returns r
   \<and> logs (snd (Options c w)) = logs w @ [Entry (lastNow w) FatalLevel ''TODO how?'' []]"
  by (simp add: Options_def zap_log_def)

section \<open>Base resolution\<close>






section \<open>Annotation\<close>



section \<open>Digest failures in Append\<close>

text \<open>
  Claim C6 says that a failure to compute a digest is wrapped with operation context and
  returned. \<open>Append\<close> does not wrap: when the digest of the annotated image cannot be
  computed, the caller receives the collaborator's error value itself.
\<close>

theorem Append_digest_error_unwrapped_counterexample:
  "Digest digestFailEnv (annotate freshAppender busyboxImage \<lparr>Algorithm = ''sha256'', Hex = ''01''\<rparr>)
     = Inl (Failure ''cannot read manifest'')
   \<and> fst (Append digestFailEnv freshAppender [] world0) =
       Returns (\<lparr>Algorithm = [], Hex = []\<rparr>, Some (Failure ''cannot read manifest''))"
proof -
  have r: "remote_Image digestFailEnv busybox [] = Inr busyboxImage"
    by (simp add: digestFailEnv_def testEnv_def)
  have b: "Digest digestFailEnv busyboxImage = Inr \<lparr>Algorithm = ''sha256'', Hex = ''01''\<rparr>"
    by (simp add: digestFailEnv_def annotated_example)
  have d: "Digest digestFailEnv (annotate freshAppender busyboxImage \<lparr>Algorithm = ''sha256'', Hex = ''01''\<rparr>)
             = Inl (Failure ''cannot read manifest'')"
    using annotated_example(1) by (simp add: digestFailEnv_def)
  have a: "fst (Append digestFailEnv freshAppender [] world0) =
             Returns (\<lparr>Algorithm = [], Hex = []\<rparr>, Some (Failure ''cannot read manifest''))"
    by (simp add: Append_def Let_def freshAppender_fields r b d busyboxImage_MediaType
          base_succeeds [where ref = busybox and b = busyboxImage and mt = OCIManifestSchema1]
          mutate_AppendLayers_def)
  show ?thesis using d a by simp
qed

text \<open>
  Claim C6, as amended: when the base resolves and its digest is computed, a failure to
  compute the digest of the annotated image is logged at error level under the stage name
  and the same error value is returned to the caller, with the zero hash and before any
  write.
\<close>

theorem Append_result_digest_failure:
  assumes "mediaType c = []" and "baseRef c = Some ref"
    and "remote_Image env ref (Remote (craneOptions c)) = Inr b" and "MediaType b = Inr mt"
    and "Digest env b = Inr bd"
    and "mutate_AppendLayers env b ls = Inr img0"
    and "Digest env (annotate c img0 bd) = Inl err"
  shows "fst (Append env c ls w) = Returns (\<lparr>Algorithm = [], Hex = []\<rparr>, Some err)
       \<and> writes (snd (snd (Append env c ls w))) = writes w
       \<and> last (logs (snd (snd (Append env c ls w)))) =
           Entry (lastNow w) ErrorLevel ''Failed to get result image digest'' [zap_Error err]"
  using assms
  by (simp add: Append_def Let_def base_succeeds zap_log_def)

theorem Append_result_digest_failure_witness:
  "fst (Append digestFailEnv freshAppender [] world0) =
       Returns (\<lparr>Algorithm = [], Hex = []\<rparr>, Some (Failure ''cannot read manifest''))
   \<and> writes (snd (snd (Append digestFailEnv freshAppender [] world0))) = []
   \<and> last (logs (snd (snd (Append digestFailEnv freshAppender [] world0)))) =
       Entry 0 ErrorLevel ''Failed to get result image digest'' [zap_Error (Failure ''cannot read manifest'')]"
proof -
  have u: "mediaType freshAppender = []" "baseRef freshAppender = Some busybox"
    by (simp_all add: freshAppender_def)
  have r: "remote_Image digestFailEnv busybox (Remote (craneOptions freshAppender)) = Inr busyboxImage"
    by (simp add: digestFailEnv_def testEnv_def)
  have m: "MediaType busyboxImage = Inr OCIManifestSchema1"
    by (simp add: busyboxImage_def)
  have b: "Digest digestFailEnv busyboxImage = Inr \<lparr>Algorithm = ''sha256'', Hex = ''01''\<rparr>"
    by (simp add: digestFailEnv_def annotated_example)
  have l: "mutate_AppendLayers digestFailEnv busyboxImage [] = Inr busyboxImage"
    by (simp add: mutate_AppendLayers_def)
  have d: "Digest digestFailEnv (annotate freshAppender busyboxImage \<lparr>Algorithm = ''sha256'', Hex = ''01''\<rparr>)
             = Inl (Failure ''cannot read manifest'')"
    using annotated_example(1) by (simp add: digestFailEnv_def)
  show ?thesis
    using Append_result_digest_failure [OF u r m b l d, of world0]
    by (simp add: world0_def)
qed

text \<open>
  When it is the digest of the base that cannot be computed, \<open>Append\<close> logs the failure
  and goes on with the zero hash; here it pushes and returns the digest of the result.
\<close>

lemma Append_base_digest_failure_example:
  "Digest baseDigestFailEnv busyboxImage = Inl (Failure ''cannot read manifest'')
   \<and> fst (Append baseDigestFailEnv freshAppender [] world0) =
       Returns (\<lparr>Algorithm = ''sha256'', Hex = ''02''\<rparr>, None)"
proof -
  have r: "remote_Image baseDigestFailEnv busybox [] = Inr busyboxImage"
    by (simp add: baseDigestFailEnv_def testEnv_def)
  have b: "Digest baseDigestFailEnv busyboxImage = Inl (Failure ''cannot read manifest'')"
    by (simp add: baseDigestFailEnv_def annotated_example)
  have d: "Digest baseDigestFailEnv (annotate freshAppender busyboxImage \<lparr>Algorithm = [], Hex = []\<rparr>)
             = Inr \<lparr>Algorithm = ''sha256'', Hex = ''02''\<rparr>"
    using annotated_example(1) by (simp add: baseDigestFailEnv_def)
  have w: "remote_Write baseDigestFailEnv = (\<lambda>r img opts. \<lparr>updates = [], closes = True, result = None\<rparr>)"
    by (simp add: baseDigestFailEnv_def testEnv_def)
  have a: "fst (Append baseDigestFailEnv freshAppender [] world0) =
       Returns (\<lparr>Algorithm = ''sha256'', Hex = ''02''\<rparr>, None)"
    by (simp add: Append_def Let_def freshAppender_fields r b d w busyboxImage_MediaType
          base_succeeds [where ref = busybox and b = busyboxImage and mt = OCIManifestSchema1]
          mutate_AppendLayers_def push_def time_ParseDuration_def
          progressReportMinInterval_def time_Now_def errChan_def receive_def split_beta)
  show ?thesis using b a by simp
qed

section \<open>The progress loop and push\<close>

lemma time_ParseDuration_constant:
  "time_ParseDuration progressReportMinInterval = Inr 1000000000"
  by (simp add: time_ParseDuration_def progressReportMinInterval_def)

lemma drain_forwards_firstError:
  "fst (drain env d us np w) = firstError us"
  by (induction us arbitrary: np w)
     (auto simp: firstError_def Let_def split: option.splits prod.splits)

lemma drain_frame:
  "drain env d us np w = (f, np', w') \<Longrightarrow>
     pulls w' = pulls w \<and> writes w' = writes w
     \<and> (\<exists>new. logs w' = logs w @ new
          \<and> (\<forall>e\<in>set new. msg e = ''push'' \<or> msg e = ''pushed'' \<or> msg e = ''push update''))"
proof (induction us arbitrary: np w f np' w')
  case Nil
  then show ?case by simp
next
  case (Cons u us)
  show ?case
  proof (cases "Error u")
    case (Some err)
    with Cons.prems show ?thesis by (auto simp: zap_log_def)
  next
    case None
    show ?thesis
    proof (cases "Complete u = Total u")
      case True
      with None Cons.prems Cons.IH [of np _ f np' w'] show ?thesis
        by (fastforce simp: zap_log_def)
    next
      case False
      show ?thesis
      proof (cases "now env (clockReads w) > np")
        case True
        with False None Cons.prems Cons.IH [of _ _ f np' w'] show ?thesis
          by (fastforce simp: zap_log_def time_Now_def Let_def)
      next
        case g: False
        with False None Cons.prems Cons.IH [of np _ f np' w'] show ?thesis
          by (fastforce simp: zap_log_def time_Now_def Let_def)
      qed
    qed
  qed
qed

lemma drain_lines:
  assumes "\<forall>u\<in>set us. Error u = None"
  shows "\<exists>new. logs (snd (snd (drain env d us np w))) = logs w @ new
     \<and> (\<forall>e\<in>set new. msg e = ''pushed'' \<or> msg e = ''push'')
     \<and> map args [e\<leftarrow>new. msg e = ''pushed''] = map completionFields [u\<leftarrow>us. Complete u = Total u]
     \<and> ((\<forall>k. now env k \<le> now env (Suc k)) \<longrightarrow> 0 \<le> d \<longrightarrow>
          sorted_wrt (\<lambda>a b. a + d < b) (map at [e\<leftarrow>new. msg e = ''push''])
          \<and> (\<forall>e\<in>set new. msg e = ''push'' \<longrightarrow> np < at e)
          \<and> fst (snd (drain env d us np w)) =
              (if [e\<leftarrow>new. msg e = ''push''] = [] then np
               else at (last [e\<leftarrow>new. msg e = ''push'']) + d))"
  using assms
proof (induction us arbitrary: np w)
  case Nil
  then show ?case by simp
next
  case (Cons u us)
  then have noerr: "Error u = None" and rest: "\<forall>u\<in>set us. Error u = None" by simp_all
  show ?case
  proof (cases "Complete u = Total u")
    case True
    define w1 where "w1 = zap_log InfoLevel ''pushed'' (completionFields u) w"
    from Cons.IH [OF rest, of np w1] obtain new where
      n: "logs (snd (snd (drain env d us np w1))) = logs w1 @ new"
         "\<forall>e\<in>set new. msg e = ''pushed'' \<or> msg e = ''push''"
         "map args [e\<leftarrow>new. msg e = ''pushed''] = map completionFields [u\<leftarrow>us. Complete u = Total u]"
         "(\<forall>k. now env k \<le> now env (Suc k)) \<longrightarrow> 0 \<le> d \<longrightarrow>
          sorted_wrt (\<lambda>a b. a + d < b) (map at [e\<leftarrow>new. msg e = ''push''])
          \<and> (\<forall>e\<in>set new. msg e = ''push'' \<longrightarrow> np < at e)
          \<and> fst (snd (drain env d us np w1)) =
              (if [e\<leftarrow>new. msg e = ''push''] = [] then np
               else at (last [e\<leftarrow>new. msg e = ''push'']) + d)"
      by blast
    have step: "drain env d (u # us) np w = drain env d us np w1"
      using True noerr by (simp add: w1_def completionFields_def)
    have l1: "logs w1 = logs w @ [Entry (lastNow w) InfoLevel ''pushed'' (completionFields u)]"
      by (simp add: w1_def zap_log_def)
    show ?thesis
      apply (rule exI [of _ "Entry (lastNow w) InfoLevel ''pushed'' (completionFields u) # new"])
      using n True by (simp add: step l1 del: drain.simps)
  next
    case False
    show ?thesis
    proof (cases "now env (clockReads w) > np")
      case g: True
      define w1 where "w1 = snd (time_Now env w)"
      define w2 where "w2 = snd (time_Now env w1)"
      define r where "r = now env (Suc (clockReads w))"
      define w3 where "w3 = zap_log InfoLevel ''push'' (completionFields u) w2"
      from Cons.IH [OF rest, of "r + d" w3] obtain new where
        n: "logs (snd (snd (drain env d us (r + d) w3))) = logs w3 @ new"
           "\<forall>e\<in>set new. msg e = ''pushed'' \<or> msg e = ''push''"
           "map args [e\<leftarrow>new. msg e = ''pushed''] = map completionFields [u\<leftarrow>us. Complete u = Total u]"
           "(\<forall>k. now env k \<le> now env (Suc k)) \<longrightarrow> 0 \<le> d \<longrightarrow>
            sorted_wrt (\<lambda>a b. a + d < b) (map at [e\<leftarrow>new. msg e = ''push''])
            \<and> (\<forall>e\<in>set new. msg e = ''push'' \<longrightarrow> r + d < at e)
            \<and> fst (snd (drain env d us (r + d) w3)) =
                (if [e\<leftarrow>new. msg e = ''push''] = [] then r + d
                 else at (last [e\<leftarrow>new. msg e = ''push'']) + d)"
        by blast
      have step: "drain env d (u # us) np w = drain env d us (r + d) w3"
        using False noerr g
        by (simp add: w1_def w2_def w3_def r_def completionFields_def time_Now_def Let_def)
      have l3: "logs w3 = logs w @ [Entry r InfoLevel ''push'' (completionFields u)]"
        by (simp add: w3_def w2_def w1_def r_def zap_log_def time_Now_def)
      have mono_r: "(\<forall>k. now env k \<le> now env (Suc k)) \<Longrightarrow> np < r"
        using g unfolding r_def by (metis less_le_trans)
      show ?thesis
        apply (rule exI [of _ "Entry r InfoLevel ''push'' (completionFields u) # new"])
        using n False mono_r by (auto simp: step l3 simp del: drain.simps)
    next
      case g: False
      define w1 where "w1 = snd (time_Now env w)"
      from Cons.IH [OF rest, of np w1] obtain new where
        n: "logs (snd (snd (drain env d us np w1))) = logs w1 @ new"
           "\<forall>e\<in>set new. msg e = ''pushed'' \<or> msg e = ''push''"
           "map args [e\<leftarrow>new. msg e = ''pushed''] = map completionFields [u\<leftarrow>us. Complete u = Total u]"
           "(\<forall>k. now env k \<le> now env (Suc k)) \<longrightarrow> 0 \<le> d \<longrightarrow>
            sorted_wrt (\<lambda>a b. a + d < b) (map at [e\<leftarrow>new. msg e = ''push''])
            \<and> (\<forall>e\<in>set new. msg e = ''push'' \<longrightarrow> np < at e)
            \<and> fst (snd (drain env d us np w1)) =
                (if [e\<leftarrow>new. msg e = ''push''] = [] then np
                 else at (last [e\<leftarrow>new. msg e = ''push'']) + d)"
        by blast
      have step: "drain env d (u # us) np w = drain env d us np w1"
        using False noerr g by (simp add: w1_def time_Now_def Let_def)
      have l1: "logs w1 = logs w"
        by (simp add: w1_def time_Now_def)
      show ?thesis
        apply (rule exI [of _ new])
        using n False by (simp add: step l1 del: drain.simps)
    qed
  qed
qed

lemma newLogs_append: "logs w' = logs w @ new \<Longrightarrow> newLogs w w' = new"
  by (simp add: newLogs_def)

lemma push_unfold:
  assumes "MediaType img = Inr mt"
  shows "push env c img w =
    (let tr = remote_Write env (tagRef c) img (Remote (craneOptions c) @ [WithProgress]);
         w3 = snd (time_Now env
                (zap_log InfoLevel ''pushing'' [zap_String ''mediaType'' mt] w
                  \<lparr>writes := writes w @ [(tagRef c, img)]\<rparr>));
         r = drain env 1000000000 (updates tr) (now env (clockReads w) + 1000000000) w3
     in (if firstError (updates tr) = None \<and> \<not> closes tr then Blocks
         else receive (errChan env tr (firstError (updates tr))),
         snd (snd r)))"
proof -
  show ?thesis
    using assms
    by (simp add: push_def time_ParseDuration_constant Let_def split_beta
          drain_forwards_firstError time_Now_def zap_log_def)
qed

lemma push_frame:
  "pulls (snd (push env c img w)) = pulls w
   \<and> (writes (snd (push env c img w)) = writes w
        \<or> writes (snd (push env c img w)) = writes w @ [(tagRef c, img)])
   \<and> (\<exists>new. logs (snd (push env c img w)) = logs w @ new
          \<and> (\<forall>e\<in>set new. msg e = ''pushing'' \<or> msg e = ''push'' \<or> msg e = ''pushed''
                            \<or> msg e = ''push update''))"
proof (cases "MediaType img")
  case (Inl err)
  then show ?thesis by (simp add: push_def)
next
  case (Inr mt)
  define tr where "tr = remote_Write env (tagRef c) img (Remote (craneOptions c) @ [WithProgress])"
  define w3 where "w3 = snd (time_Now env
                (zap_log InfoLevel ''pushing'' [zap_String ''mediaType'' mt] w
                  \<lparr>writes := writes w @ [(tagRef c, img)]\<rparr>))"
  define r where "r = drain env 1000000000 (updates tr) (now env (clockReads w) + 1000000000) w3"
  have s: "snd (push env c img w) = snd (snd r)"
    by (simp add: push_unfold [OF Inr] Let_def tr_def w3_def r_def)
  obtain f np' w' where d: "drain env 1000000000 (updates tr) (now env (clockReads w) + 1000000000) w3 = (f, np', w')"
    by (cases "drain env 1000000000 (updates tr) (now env (clockReads w) + 1000000000) w3") auto
  from drain_frame [OF d] obtain new where
    n: "pulls w' = pulls w3" "writes w' = writes w3" "logs w' = logs w3 @ new"
       "\<forall>e\<in>set new. msg e = ''push'' \<or> msg e = ''pushed'' \<or> msg e = ''push update''"
    by blast
  have w3: "pulls w3 = pulls w" "writes w3 = writes w @ [(tagRef c, img)]"
     "logs w3 = logs w @ [Entry (lastNow w) InfoLevel ''pushing'' [zap_String ''mediaType'' mt]]"
    by (simp_all add: w3_def time_Now_def zap_log_def)
  have s': "snd (push env c img w) = w'"
    using s d by (simp add: r_def)
  show ?thesis
    unfolding s'
    apply (intro conjI)
      apply (simp add: n w3)
     apply (simp add: n w3)
    apply (rule exI [of _ "Entry (lastNow w) InfoLevel ''pushing'' [zap_String ''mediaType'' mt] # new"])
    using n(4) by (simp add: n w3)
qed




lemma push_config [simp]:
  "push env (c\<lparr>layerType := lt, mediaType := mt\<rparr>) img w = push env c img w"
  by (simp add: push_def Let_def split: sum.splits)

lemma writes_zap_log [simp]: "writes (zap_log l m fs w) = writes w"
  by (simp add: zap_log_def)

lemma pulls_zap_log [simp]: "pulls (zap_log l m fs w) = pulls w"
  by (simp add: zap_log_def)

lemma platformWarned_frame [simp]:
  "writes (platformWarned c w) = writes w" "pulls (platformWarned c w) = pulls w"
  by (simp_all add: platformWarned_def zap_log_def)

section \<open>Append, step by step\<close>

text \<open>\<open>Append\<close> once the outcome of \<open>base\<close> is known.\<close>

lemma base_Returns_Inr:
  assumes "base env c w = (Returns (Inr b), c1, w1)"
  shows "\<exists>ref mt. baseRef c = Some ref \<and> remote_Image env ref (Remote (craneOptions c)) = Inr b
           \<and> MediaType b = Inr mt
           \<and> c1 = c\<lparr>layerType := (if mt = OCIManifestSchema1 then OCILayer else DockerLayer),
                     mediaType := mt\<rparr>
           \<and> w1 = w\<lparr>pulls := pulls w @ [ref]\<rparr>"
  using assms
  by (auto simp: base_def Let_def split: if_splits option.splits sum.splits)

lemma base_world:
  assumes "base env c w = (out, c1, w1)"
  shows "w1 = w \<or> w1 = zap_log FatalLevel ''contain.Base() has already been invoked'' [] w
         \<or> (\<exists>ref. w1 = w\<lparr>pulls := pulls w @ [ref]\<rparr>)"
  using assms
  by (auto simp: base_def Let_def split: if_splits option.splits sum.splits)

lemma Append_after_base:
  assumes "base env c (platformWarned c w) = (out, c1, w3)"
  shows "Append env c ls w =
     (case out of
        Exits \<Rightarrow> (Exits, c1, w3)
      | Panics \<Rightarrow> (Panics, c1, w3)
      | Blocks \<Rightarrow> (Blocks, c1, w3)
      | Returns (Inl err) \<Rightarrow>
          (Returns (\<lparr>Algorithm = [], Hex = []\<rparr>, Some err), c1,
           zap_log ErrorLevel ''Failed to get base image'' [zap_Error err] w3)
      | Returns (Inr b) \<Rightarrow>
         (let baseDigest = (case Digest env b of Inl err \<Rightarrow> \<lparr>Algorithm = [], Hex = []\<rparr> | Inr d \<Rightarrow> d);
              w4 = (case Digest env b of
                      Inl err \<Rightarrow> zap_log ErrorLevel ''Failed to get base image digest'' [zap_Error err] w3
                    | Inr d \<Rightarrow> w3)
          in case mutate_AppendLayers env b ls of
               Inl err \<Rightarrow>
                 (Returns (\<lparr>Algorithm = [], Hex = []\<rparr>, Some err), c1,
                  zap_log ErrorLevel ''Failed to append layers'' [zap_Error err] w4)
             | Inr img0 \<Rightarrow>
                (case Digest env (annotate c1 img0 baseDigest) of
                   Inl err \<Rightarrow>
                     (Returns (\<lparr>Algorithm = [], Hex = []\<rparr>, Some err), c1,
                      zap_log ErrorLevel ''Failed to get result image digest'' [zap_Error err] w4)
                 | Inr imgDigest \<Rightarrow>
                    (case fst (push env c1 (annotate c1 img0 baseDigest) w4) of
                       Returns (Some err) \<Rightarrow>
                         (Returns (\<lparr>Algorithm = [], Hex = []\<rparr>, Some err), c1,
                          zap_log ErrorLevel ''Failed to push'' [zap_Error err]
                            (snd (push env c1 (annotate c1 img0 baseDigest) w4)))
                     | Returns None \<Rightarrow>
                         (Returns (imgDigest, None), c1,
                          zap_log InfoLevel ''pushed'' [zap_String ''digest'' (Hash_String imgDigest)]
                            (snd (push env c1 (annotate c1 img0 baseDigest) w4)))
                     | Exits \<Rightarrow> (Exits, c1, snd (push env c1 (annotate c1 img0 baseDigest) w4))
                     | Panics \<Rightarrow> (Panics, c1, snd (push env c1 (annotate c1 img0 baseDigest) w4))
                     | Blocks \<Rightarrow> (Blocks, c1, snd (push env c1 (annotate c1 img0 baseDigest) w4))))))"
proof (cases "1 < length (Platforms (config c))")
  case True
  with assms have b: "base env c
      (zap_log WarnLevel ''unsupported multiple platforms, falling back to all''
         [zap_Strings ''platforms'' (Platforms (config c))] w) = (out, c1, w3)"
    by (simp add: platformWarned_def)
  from True have n: "length (Platforms (config c)) \<noteq> 1" by simp
  show ?thesis
    using True n
    by (simp add: Append_def Let_def b split: outcome.splits sum.splits option.splits prod.splits)
next
  case False
  show ?thesis
  proof (cases "length (Platforms (config c)) = 1")
    case True
    with assms False have b: "base env c
        (zap_log WarnLevel ''unsupported single platform, falling back to all''
           [zap_String ''platform'' (Platforms (config c) ! 0)] w) = (out, c1, w3)"
      by (simp add: platformWarned_def)
    show ?thesis
      using True False
      by (simp add: Append_def Let_def b split: outcome.splits sum.splits option.splits prod.splits)
  next
    case n: False
    with assms False have b: "base env c w = (out, c1, w3)"
      by (simp add: platformWarned_def)
    show ?thesis
      using n False
      by (simp add: Append_def Let_def b split: outcome.splits sum.splits option.splits prod.splits)
  qed
qed


lemma mutate_AppendLayers_Nil [simp]: "mutate_AppendLayers env b [] = Inr b"
  by (simp add: mutate_AppendLayers_def)

lemma annotate_layers [simp]: "layers (annotate c b d) = layers b"
  by (simp add: annotate_def mutate_Annotations_def Let_def split: option.splits name_Reference.splits)

lemma annotate_only_annotations: "(annotate c b d)\<lparr>annotations := annotations b\<rparr> = b"
  by (simp add: annotate_def mutate_Annotations_def Let_def split: option.splits name_Reference.splits)

lemma Append_zero_logs:
  "\<exists>new. logs (snd (snd (Append env c [] w))) = logs w @ new
         \<and> (\<forall>e\<in>set new. msg e \<noteq> ''Failed to append layers'')"
proof -
  define P where "P w' \<longleftrightarrow> (\<exists>new. logs w' = logs w @ new
         \<and> (\<forall>e\<in>set new. msg e \<noteq> ''Failed to append layers''))" for w' :: world
  have P0: "P w" by (simp add: P_def)
  have Pz: "P (zap_log l m fs w')" if "P w'" "m \<noteq> ''Failed to append layers''" for l m fs w'
  proof -
    from that obtain new where "logs w' = logs w @ new" "\<forall>e\<in>set new. msg e \<noteq> ''Failed to append layers''"
      by (auto simp: P_def)
    then show ?thesis
      unfolding P_def using that(2)
      by (intro exI [of _ "new @ [Entry (lastNow w') l m fs]"]) (simp add: zap_log_def)
  qed
  have Pu: "P (w'\<lparr>pulls := x\<rparr>)" if "P w'" for w' x
    using that by (simp add: P_def)
  have Pp: "P (snd (push env c' img w'))" if "P w'" for w' c' img
  proof -
    from that obtain new where n: "logs w' = logs w @ new" "\<forall>e\<in>set new. msg e \<noteq> ''Failed to append layers''"
      by (auto simp: P_def)
    from push_frame [of env c' img w'] obtain new' where
      n': "logs (snd (push env c' img w')) = logs w' @ new'"
          "\<forall>e\<in>set new'. msg e = ''pushing'' \<or> msg e = ''push'' \<or> msg e = ''pushed''
                            \<or> msg e = ''push update''"
      by blast
    have "\<forall>e\<in>set new'. msg e \<noteq> ''Failed to append layers''"
      using n'(2) by auto
    then show ?thesis
      unfolding P_def using n n'(1)
      by (intro exI [of _ "new @ new'"]) auto
  qed
  have Pw: "P (platformWarned c w)"
    unfolding platformWarned_def using P0 by (auto intro: Pz)
  obtain out c1 w3 where b: "base env c (platformWarned c w) = (out, c1, w3)"
    by (cases "base env c (platformWarned c w)") auto
  have P3: "P w3"
    using base_world [OF b] Pw by (auto intro: Pz Pu)
  have "P (snd (snd (Append env c [] w)))"
    unfolding Append_after_base [OF b] using P3
    by (auto simp: Let_def split: outcome.splits sum.splits option.splits intro!: Pz Pp)
  then show ?thesis by (simp add: P_def)
qed

lemma Append_zero_writes:
  "writes (snd (snd (Append env c [] w))) = writes w
   \<or> (\<exists>ref b d. baseRef c = Some ref \<and> remote_Image env ref (Remote (craneOptions c)) = Inr b
         \<and> writes (snd (snd (Append env c [] w))) = writes w @ [(tagRef c, annotate c b d)])"
proof -
  obtain out c1 w3 where b: "base env c (platformWarned c w) = (out, c1, w3)"
    by (cases "base env c (platformWarned c w)") auto
  have w3: "writes w3 = writes w"
    using base_world [OF b] by auto
  show ?thesis
  proof (cases out)
    case (Returns r)
    show ?thesis
    proof (cases r)
      case (Inl err)
      then show ?thesis
        unfolding Append_after_base [OF b] using Returns w3 by simp
    next
      case (Inr b0)
      with Returns b have b': "base env c (platformWarned c w) = (Returns (Inr b0), c1, w3)" by simp
      from base_Returns_Inr [OF b'] obtain ref mt where
        r: "baseRef c = Some ref" "remote_Image env ref (Remote (craneOptions c)) = Inr b0"
           "c1 = c\<lparr>layerType := (if mt = OCIManifestSchema1 then OCILayer else DockerLayer), mediaType := mt\<rparr>"
        by blast
      define d where "d = (case Digest env b0 of Inl err \<Rightarrow> \<lparr>Algorithm = [], Hex = []\<rparr> | Inr d \<Rightarrow> d)"
      define w4 where "w4 = (case Digest env b0 of
                      Inl err \<Rightarrow> zap_log ErrorLevel ''Failed to get base image digest'' [zap_Error err] w3
                    | Inr d \<Rightarrow> w3)"
      have w4: "writes w4 = writes w"
        using w3 by (simp add: w4_def split: sum.splits)
      have t: "tagRef c1 = tagRef c" and a: "annotate c1 b0 d = annotate c b0 d"
        by (simp_all add: r(3))
      from push_frame [of env c1 "annotate c b0 d" w4]
      have p: "writes (snd (push env c1 (annotate c b0 d) w4)) = writes w
            \<or> writes (snd (push env c1 (annotate c b0 d) w4)) = writes w @ [(tagRef c, annotate c b0 d)]"
        by (simp add: w4 t)
      have "writes (snd (snd (Append env c [] w))) = writes w
            \<or> writes (snd (snd (Append env c [] w))) = writes w @ [(tagRef c, annotate c b0 d)]"
        unfolding Append_after_base [OF b] using Returns Inr p w4
        by (auto simp: Let_def a d_def [symmetric] w4_def [symmetric]
              split: outcome.splits sum.splits option.splits)
      then show ?thesis using r by blast
    qed
  qed (use w3 in \<open>simp_all add: Append_after_base [OF b]\<close>)
qed

section \<open>A log line inserted earlier commutes with every step\<close>

lemma insertLog_fields [simp]:
  "pulls (insertLog n e w) = pulls w" "writes (insertLog n e w) = writes w"
  "clockReads (insertLog n e w) = clockReads w" "lastNow (insertLog n e w) = lastNow w"
  "length (logs (insertLog n e w)) = Suc (length (logs w))"
  by (simp_all add: insertLog_def)

lemma insertLog_updates [simp]:
  "insertLog n e (w\<lparr>pulls := p\<rparr>) = (insertLog n e w)\<lparr>pulls := p\<rparr>"
  "insertLog n e (w\<lparr>writes := x\<rparr>) = (insertLog n e w)\<lparr>writes := x\<rparr>"
  by (simp_all add: insertLog_def)

lemma length_logs_zap_log [simp]: "length (logs (zap_log l m fs w)) = Suc (length (logs w))"
  by (simp add: zap_log_def)

lemma platformWarned_insertLog:
  "Platforms (config c) \<noteq> [] \<Longrightarrow>
     platformWarned c w = insertLog (length (logs w)) (platformWarning (Platforms (config c)) (lastNow w)) w"
  by (cases "Platforms (config c)")
     (auto simp: platformWarned_def platformWarning_def insertLog_def zap_log_def)

lemma platformWarned_none:
  "Platforms (config c) = [] \<Longrightarrow> platformWarned c w = w"
  by (simp add: platformWarned_def)

lemma zap_log_insertLog:
  "n \<le> length (logs w) \<Longrightarrow> zap_log l m fs (insertLog n e w) = insertLog n e (zap_log l m fs w)"
  by (simp add: zap_log_def insertLog_def)

lemma time_Now_insertLog:
  "time_Now env (insertLog n e w) = (fst (time_Now env w), insertLog n e (snd (time_Now env w)))"
  by (simp add: time_Now_def insertLog_def)

lemma drain_insertLog:
  "n \<le> length (logs w) \<Longrightarrow>
     drain env d us np (insertLog n e w) =
       (case drain env d us np w of (f, np', w') \<Rightarrow> (f, np', insertLog n e w'))"
proof (induction us arbitrary: np w)
  case Nil
  then show ?case by simp
next
  case (Cons u us)
  have len: "\<And>l m fs. n \<le> length (logs (zap_log l m fs w))"
    using Cons.prems by (simp add: zap_log_def)
  have len1: "n \<le> length (logs (snd (time_Now env w)))"
    using Cons.prems by (simp add: time_Now_def)
  have len2: "\<And>l m fs. n \<le> length (logs (zap_log l m fs (snd (time_Now env (snd (time_Now env w))))))"
    using Cons.prems by (simp add: time_Now_def zap_log_def)
  have len3: "n \<le> length (logs (snd (time_Now env (snd (time_Now env w)))))"
    using Cons.prems by (simp add: time_Now_def)
  show ?case
    using Cons.prems len len1 len2 len3
    by (simp add: zap_log_insertLog time_Now_insertLog Cons.IH Let_def split_beta
          split: option.splits)
qed

lemma base_insertLog:
  assumes "n \<le> length (logs w)"
  shows "base env c (insertLog n e w) =
           (case base env c w of (out, c', w') \<Rightarrow> (out, c', insertLog n e w'))"
  using assms
  by (simp add: base_def Let_def zap_log_insertLog split: option.splits sum.splits)

lemma base_config:
  "base env (c\<lparr>config := cfg\<rparr>) w =
     (case base env c w of (out, c', w') \<Rightarrow> (out, c'\<lparr>config := cfg\<rparr>, w'))"
  by (simp add: base_def Let_def split: option.splits sum.splits)

lemma annotate_config [simp]: "annotate (c\<lparr>config := cfg\<rparr>) img d = annotate c img d"
  by (simp add: annotate_def)

lemma push_config' [simp]: "push env (c\<lparr>config := cfg\<rparr>) img w = push env c img w"
  by (simp add: push_def Let_def split: sum.splits)

lemma push_logs_length:
  "length (logs w) \<le> length (logs (snd (push env c img w)))"
  using push_frame [of env c img w] by auto

lemma base_logs_length:
  "base env c w = (out, c1, w1) \<Longrightarrow> length (logs w) \<le> length (logs w1)"
  using base_world [of env c w out c1 w1] by auto

lemma push_insertLog:
  assumes "n \<le> length (logs w)"
  shows "push env c img (insertLog n e w) =
           (fst (push env c img w), insertLog n e (snd (push env c img w)))"
proof (cases "MediaType img")
  case (Inl err)
  then show ?thesis by (simp add: push_def)
next
  case (Inr mt)
  define tr where "tr = remote_Write env (tagRef c) img (Remote (craneOptions c) @ [WithProgress])"
  define w3 where "w3 = snd (time_Now env
                (zap_log InfoLevel ''pushing'' [zap_String ''mediaType'' mt] w
                  \<lparr>writes := writes w @ [(tagRef c, img)]\<rparr>))"
  have le: "n \<le> length (logs w3)"
    using assms by (simp add: w3_def time_Now_def)
  have w3': "snd (time_Now env
                (zap_log InfoLevel ''pushing'' [zap_String ''mediaType'' mt] (insertLog n e w)
                  \<lparr>writes := writes (insertLog n e w) @ [(tagRef c, img)]\<rparr>)) = insertLog n e w3"
    using assms by (simp add: w3_def zap_log_def time_Now_def insertLog_def)
  show ?thesis
    unfolding push_unfold [OF Inr] Let_def w3' tr_def [symmetric] w3_def [symmetric]
    by (simp add: drain_insertLog [OF le] split_beta)
qed

section \<open>The pipeline on the small registry\<close>

lemma world0_fields:
  "logs world0 = []" "writes world0 = []" "pulls world0 = []" "lastNow world0 = 0"
  "clockReads world0 = 0"
  by (simp_all add: world0_def)

lemma testEnv_fields:
  "remote_Image testEnv busybox opts = Inr busyboxImage"
  "Digest testEnv busyboxImage = Inr busyboxDigest"
  "Digest testEnv (annotate c busyboxImage d) = Inr busyboxDigest"
  "remote_Write testEnv r img opts = \<lparr>updates = [], closes = True, result = None\<rparr>"
  "writerFirst testEnv = False"
  "now testEnv k = int k * 600000000"
  by (simp_all add: testEnv_def busyboxDigest_def busyboxImage_def)

lemma Append_example:
  "Append testEnv freshAppender [] world0 =
     (Returns (busyboxDigest, None), resolvedAppender,
      \<lparr>logs = [Entry 0 InfoLevel ''pushing'' [zap_String ''mediaType'' OCIManifestSchema1],
               Entry 0 InfoLevel ''pushed'' [zap_String ''digest'' ''sha256:sha256:01'']],
       clockReads = 1, lastNow = 0, pulls = [busybox],
       writes = [(Some target, annotate freshAppender busyboxImage busyboxDigest)]\<rparr>)"
proof -
  have b: "base testEnv freshAppender (platformWarned freshAppender world0) =
             (Returns (Inr busyboxImage), resolvedAppender, world0\<lparr>pulls := [busybox]\<rparr>)"
    using base_example by (simp add: platformWarned_none freshAppender_fields)
  have p: "push testEnv resolvedAppender (annotate freshAppender busyboxImage busyboxDigest)
             (world0\<lparr>pulls := [busybox]\<rparr>) =
           (Returns None,
            \<lparr>logs = [Entry 0 InfoLevel ''pushing'' [zap_String ''mediaType'' OCIManifestSchema1]],
             clockReads = 1, lastNow = 0, pulls = [busybox],
             writes = [(Some target, annotate freshAppender busyboxImage busyboxDigest)]\<rparr>)"
    by (simp add: push_def time_ParseDuration_constant Let_def testEnv_fields freshAppender_fields
        resolvedAppender_def busyboxImage_MediaType
        time_Now_def zap_log_def world0_def errChan_def receive_def)
  have a: "annotate resolvedAppender busyboxImage busyboxDigest = annotate freshAppender busyboxImage busyboxDigest"
    by (simp add: resolvedAppender_def)
  have h: "Hash_String busyboxDigest = ''sha256:sha256:01''"
    by (simp add: Hash_String_def busyboxDigest_def)
  show ?thesis
    unfolding Append_after_base [OF b]
    by (simp add: Let_def testEnv_fields a p h zap_log_def)
qed



lemma progressEnv_fields:
  "remote_Write progressEnv r img opts =
        \<lparr>updates = [\<lparr>Complete = 10, Total = 100, Error = None\<rparr>,
                    \<lparr>Complete = 30, Total = 100, Error = None\<rparr>,
                    \<lparr>Complete = 50, Total = 100, Error = None\<rparr>,
                    \<lparr>Complete = 70, Total = 100, Error = None\<rparr>,
                    \<lparr>Complete = 100, Total = 100, Error = None\<rparr>],
         closes = True, result = None\<rparr>"
  "now progressEnv k = int k * 600000000"
  "writerFirst progressEnv = False"
  by (simp_all add: progressEnv_def testEnv_def)

lemma progress_push_logs:
  "logs (snd (push progressEnv freshAppender busyboxImage world0)) =
     [Entry 0 InfoLevel ''pushing'' [zap_String ''mediaType'' OCIManifestSchema1],
      Entry 1800000000 InfoLevel ''push'' [zap_Int64 ''completed'' 30, zap_Int64 ''total'' 100],
      Entry 3600000000 InfoLevel ''push'' [zap_Int64 ''completed'' 70, zap_Int64 ''total'' 100],
      Entry 3600000000 InfoLevel ''pushed'' [zap_Int64 ''completed'' 100, zap_Int64 ''total'' 100]]"
  by (simp add: push_unfold [OF busyboxImage_MediaType] Let_def progressEnv_fields
        time_Now_def zap_log_def world0_def)

lemma repeatEnv_fields:
  "remote_Write repeatEnv r img opts =
        \<lparr>updates = [\<lparr>Complete = 100, Total = 100, Error = None\<rparr>,
                    \<lparr>Complete = 100, Total = 100, Error = None\<rparr>],
         closes = True, result = None\<rparr>"
  "remote_Write shortEnv r img opts =
        \<lparr>updates = [\<lparr>Complete = 50, Total = 100, Error = None\<rparr>],
         closes = True, result = None\<rparr>"
  "now repeatEnv k = int k * 600000000" "now shortEnv k = int k * 600000000"
  "writerFirst repeatEnv = False" "writerFirst shortEnv = False"
  by (simp_all add: repeatEnv_def shortEnv_def testEnv_def)

lemma platformAppender_fields:
  "Platforms (config platformAppender) = [''linux/amd64'', ''linux/arm64'']"
  "platformAppender\<lparr>config := (config platformAppender)\<lparr>Platforms := []\<rparr>\<rparr> = freshAppender"
  by (simp_all add: platformAppender_def freshAppender_def testConfig_def)

section \<open>The outcome of a push\<close>




section \<open>Progress logging\<close>

text \<open>
  Claim C7 says that exactly one completion line is logged per push. The loop logs one for
  every update with \<open>completed = total\<close> and keeps no record of having done so: a
  transfer that reports completion twice gets two completion lines, and one whose channel
  closes before completion is reported gets none.
\<close>

theorem completion_lines_counterexample:
  "push repeatEnv freshAppender busyboxImage world0 =
     (Returns None,
      \<lparr>logs = [Entry 0 InfoLevel ''pushing'' [zap_String ''mediaType'' OCIManifestSchema1],
               Entry 0 InfoLevel ''pushed'' [zap_Int64 ''completed'' 100, zap_Int64 ''total'' 100],
               Entry 0 InfoLevel ''pushed'' [zap_Int64 ''completed'' 100, zap_Int64 ''total'' 100]],
       clockReads = 1, lastNow = 0, pulls = [], writes = [(Some target, busyboxImage)]\<rparr>)
   \<and> push shortEnv freshAppender busyboxImage world0 =
     (Returns None,
      \<lparr>logs = [Entry 0 InfoLevel ''pushing'' [zap_String ''mediaType'' OCIManifestSchema1]],
       clockReads = 2, lastNow = 600000000, pulls = [], writes = [(Some target, busyboxImage)]\<rparr>)"
  by (simp add: push_unfold [OF busyboxImage_MediaType] Let_def repeatEnv_fields freshAppender_fields
        firstError_def errChan_def receive_def time_Now_def zap_log_def world0_def)

text \<open>
  Claim C7, as amended: the debounce interval parses to one second. For updates without
  errors, the completion lines \<open>push\<close> logs are, in order, exactly one per update with
  \<open>completed = total\<close>, carrying that update's numbers, whatever the clock says. With a
  clock that never runs backwards, any two progress lines are more than one second apart
  and the first is more than one second after the start, so no window of one second holds
  two of them; and the next-allowed timestamp the loop ends with is one second after the
  last progress line (or the initial one if none was logged).
\<close>

theorem push_progress_lines:
  assumes "MediaType img = Inr mt"
    and "tr = remote_Write env (tagRef c) img (Remote (craneOptions c) @ [WithProgress])"
    and "\<forall>u\<in>set (updates tr). Error u = None"
  shows "time_ParseDuration progressReportMinInterval = Inr 1000000000
       \<and> map args [e\<leftarrow>newLogs w (snd (push env c img w)). msg e = ''pushed'']
           = map completionFields [u\<leftarrow>updates tr. Complete u = Total u]
       \<and> ((\<forall>k. now env k \<le> now env (Suc k)) \<longrightarrow>
            sorted_wrt (\<lambda>a b. a + 1000000000 < b)
              (map at [e\<leftarrow>newLogs w (snd (push env c img w)). msg e = ''push''])
            \<and> (\<forall>e\<in>set (newLogs w (snd (push env c img w))).
                  msg e = ''push'' \<longrightarrow> now env (clockReads w) + 1000000000 < at e)
            \<and> fst (snd (drain env 1000000000 (updates tr) np v)) =
                (if [e\<leftarrow>newLogs v (snd (snd (drain env 1000000000 (updates tr) np v))). msg e = ''push''] = []
                 then np
                 else at (last [e\<leftarrow>newLogs v (snd (snd (drain env 1000000000 (updates tr) np v))).
                                 msg e = ''push'']) + 1000000000))"
proof -
  define w3 where "w3 = snd (time_Now env
                (zap_log InfoLevel ''pushing'' [zap_String ''mediaType'' mt] w
                  \<lparr>writes := writes w @ [(tagRef c, img)]\<rparr>))"
  define np0 where "np0 = now env (clockReads w) + 1000000000"
  have s: "snd (push env c img w) = snd (snd (drain env 1000000000 (updates tr) np0 w3))"
    by (simp add: push_unfold [OF assms(1)] Let_def assms(2) w3_def np0_def)
  have l3: "logs w3 = logs w @ [Entry (lastNow w) InfoLevel ''pushing'' [zap_String ''mediaType'' mt]]"
    by (simp add: w3_def time_Now_def zap_log_def)
  from drain_lines [OF assms(3), of env 1000000000 np0 w3] obtain new where
    n: "logs (snd (snd (drain env 1000000000 (updates tr) np0 w3))) = logs w3 @ new"
       "map args [e\<leftarrow>new. msg e = ''pushed''] = map completionFields [u\<leftarrow>updates tr. Complete u = Total u]"
       "(\<forall>k. now env k \<le> now env (Suc k)) \<longrightarrow>
          sorted_wrt (\<lambda>a b. a + 1000000000 < b) (map at [e\<leftarrow>new. msg e = ''push''])
          \<and> (\<forall>e\<in>set new. msg e = ''push'' \<longrightarrow> np0 < at e)"
    by auto
  have nl: "newLogs w (snd (push env c img w)) =
              Entry (lastNow w) InfoLevel ''pushing'' [zap_String ''mediaType'' mt] # new"
    by (rule newLogs_append) (simp add: s n(1) l3)
  from drain_lines [OF assms(3), of env 1000000000 np v] obtain new' where
    n': "logs (snd (snd (drain env 1000000000 (updates tr) np v))) = logs v @ new'"
        "(\<forall>k. now env k \<le> now env (Suc k)) \<longrightarrow>
          fst (snd (drain env 1000000000 (updates tr) np v)) =
              (if [e\<leftarrow>new'. msg e = ''push''] = [] then np
               else at (last [e\<leftarrow>new'. msg e = ''push'']) + 1000000000)"
    by auto
  have nl': "newLogs v (snd (snd (drain env 1000000000 (updates tr) np v))) = new'"
    by (rule newLogs_append) (simp add: n'(1))
  show ?thesis
    unfolding nl nl'
    using n(2,3) n'(2) by (simp add: time_ParseDuration_constant np0_def)
qed

theorem push_progress_lines_witness:
  "MediaType busyboxImage = Inr OCIManifestSchema1
   \<and> list_all (\<lambda>u. Error u = None)
        (updates (remote_Write progressEnv (tagRef freshAppender) busyboxImage
                   (Remote (craneOptions freshAppender) @ [WithProgress])))
   \<and> map at [e\<leftarrow>newLogs world0 (snd (push progressEnv freshAppender busyboxImage world0)).
               msg e = ''push''] = [1800000000, 3600000000]
   \<and> sorted_wrt (\<lambda>a b. a + 1000000000 < b)
        (map at [e\<leftarrow>newLogs world0 (snd (push progressEnv freshAppender busyboxImage world0)).
                  msg e = ''push''])
   \<and> map args [e\<leftarrow>newLogs world0 (snd (push progressEnv freshAppender busyboxImage world0)).
                 msg e = ''pushed'']
       = [[zap_Int64 ''completed'' 100, zap_Int64 ''total'' 100]]"
proof -
  have ne: "\<forall>u\<in>set (updates (remote_Write progressEnv (tagRef freshAppender) busyboxImage
                   (Remote (craneOptions freshAppender) @ [WithProgress]))). Error u = None"
    by (simp add: progressEnv_fields)
  have mono: "\<forall>k. now progressEnv k \<le> now progressEnv (Suc k)"
    by (simp add: progressEnv_fields)
  have nl: "newLogs world0 (snd (push progressEnv freshAppender busyboxImage world0)) =
              logs (snd (push progressEnv freshAppender busyboxImage world0))"
    by (simp add: newLogs_def world0_def)
  show ?thesis
    using push_progress_lines [OF busyboxImage_MediaType refl ne, of world0 0 world0] mono
    by (simp add: nl progress_push_logs busyboxImage_MediaType progressEnv_fields)
qed

section \<open>Appending zero layers\<close>

text \<open>
  Claim C8: appending zero layers to a base never fails and gives the base back; the
  annotated image has the base's layer list and differs from the base in its annotations
  only. In \<open>Append\<close> with zero layers, the line for a failed append is never logged, and
  the image written, if one is, is the pulled base with the annotations added.
\<close>

theorem append_zero_layers:
  "mutate_AppendLayers env b [] = Inr b
   \<and> layers (annotate c b d) = layers b
   \<and> (annotate c b d)\<lparr>annotations := annotations b\<rparr> = b
   \<and> (\<forall>e\<in>set (newLogs w (snd (snd (Append env c [] w)))). msg e \<noteq> ''Failed to append layers'')
   \<and> (writes (snd (snd (Append env c [] w))) = writes w
        \<or> (\<exists>ref b0 d0. baseRef c = Some ref
              \<and> remote_Image env ref (Remote (craneOptions c)) = Inr b0
              \<and> writes (snd (snd (Append env c [] w))) = writes w @ [(tagRef c, annotate c b0 d0)]))"
proof -
  from Append_zero_logs [of env c w] obtain new where
    n: "logs (snd (snd (Append env c [] w))) = logs w @ new"
       "\<forall>e\<in>set new. msg e \<noteq> ''Failed to append layers''"
    by blast
  have "newLogs w (snd (snd (Append env c [] w))) = new"
    using n(1) by (rule newLogs_append)
  then show ?thesis
    using n(2) Append_zero_writes [of env c w]
    by (simp add: annotate_only_annotations)
qed

theorem append_zero_layers_witness:
  "mutate_AppendLayers testEnv busyboxImage [] = Inr busyboxImage
   \<and> fst (Append testEnv freshAppender [] world0) = Returns (busyboxDigest, None)
   \<and> map msg (newLogs world0 (snd (snd (Append testEnv freshAppender [] world0))))
       = [''pushing'', ''pushed'']
   \<and> writes (snd (snd (Append testEnv freshAppender [] world0)))
       = [(Some target, annotate freshAppender busyboxImage busyboxDigest)]
   \<and> layers (annotate freshAppender busyboxImage busyboxDigest) = layers busyboxImage
   \<and> (annotate freshAppender busyboxImage busyboxDigest)\<lparr>annotations := annotations busyboxImage\<rparr>
       = busyboxImage"
  using append_zero_layers [of testEnv busyboxImage freshAppender busyboxDigest world0]
  by (simp add: Append_example newLogs_def world0_fields)

section \<open>Platform lists\<close>

text \<open>
  Claim C9: with a platform list of one or more entries, \<open>Append\<close> does exactly what it
  does with an empty list (the same outcome, the same pull, the same image written to the
  same destination, the same log lines) except that one warning naming the requested
  platform or platforms is logged first. The list never reaches the registry client.
\<close>

theorem Append_platforms_fall_back:
  assumes "Platforms (config c) \<noteq> []"
  shows "Append env c ls w =
     (case Append env (c\<lparr>config := (config c)\<lparr>Platforms := []\<rparr>\<rparr>) ls w of
        (out, c', w') \<Rightarrow>
          (out, c'\<lparr>config := config c\<rparr>,
           insertLog (length (logs w)) (platformWarning (Platforms (config c)) (lastNow w)) w'))"
proof -
  define c0 where "c0 = c\<lparr>config := (config c)\<lparr>Platforms := []\<rparr>\<rparr>"
  define n where "n = length (logs w)"
  define e where "e = platformWarning (Platforms (config c)) (lastNow w)"
  have c: "c = c0\<lparr>config := config c\<rparr>" by (simp add: c0_def)
  have p0: "platformWarned c0 w = w"
    by (simp add: platformWarned_none c0_def)
  have p: "platformWarned c w = insertLog n e w"
    using assms by (simp add: platformWarned_insertLog n_def e_def)
  obtain out c1 w3 where b0: "base env c0 w = (out, c1, w3)"
    by (cases "base env c0 w") auto
  have b0': "base env c0 (platformWarned c0 w) = (out, c1, w3)"
    using b0 p0 by simp
  have le3: "n \<le> length (logs w3)"
    using base_logs_length [OF b0] by (simp add: n_def)
  have "base env c (insertLog n e w) = (out, c1\<lparr>config := config c\<rparr>, insertLog n e w3)"
    by (subst c) (simp add: base_config base_insertLog n_def b0)
  then have b: "base env c (platformWarned c w) = (out, c1\<lparr>config := config c\<rparr>, insertLog n e w3)"
    using p by simp
  have pl: "\<And>img v. n \<le> length (logs v) \<Longrightarrow> n \<le> length (logs (snd (push env c1 img v)))"
    using push_logs_length le_trans by blast
  have "Append env c ls w =
     (case Append env c0 ls w of
        (out, c', w') \<Rightarrow> (out, c'\<lparr>config := config c\<rparr>, insertLog n e w'))"
    unfolding Append_after_base [OF b] Append_after_base [OF b0']
    using le3
    by (simp add: Let_def zap_log_insertLog push_insertLog pl
          split: outcome.splits sum.splits option.splits)
  then show ?thesis by (simp add: c0_def n_def e_def)
qed

theorem Append_platforms_fall_back_witness:
  "Platforms (config platformAppender) = [''linux/amd64'', ''linux/arm64'']
   \<and> fst (Append testEnv platformAppender [] world0) = Returns (busyboxDigest, None)
   \<and> writes (snd (snd (Append testEnv platformAppender [] world0)))
       = [(Some target, annotate freshAppender busyboxImage busyboxDigest)]
   \<and> logs (snd (snd (Append testEnv platformAppender [] world0)))
       = [Entry 0 WarnLevel ''unsupported multiple platforms, falling back to all''
            [zap_Strings ''platforms'' [''linux/amd64'', ''linux/arm64'']],
          Entry 0 InfoLevel ''pushing'' [zap_String ''mediaType'' OCIManifestSchema1],
          Entry 0 InfoLevel ''pushed'' [zap_String ''digest'' ''sha256:sha256:01'']]"
proof -
  have p: "Platforms (config platformAppender) \<noteq> []"
    by (simp add: platformAppender_fields)
  show ?thesis
    using Append_platforms_fall_back [OF p, of testEnv "[]" world0]
    by (simp add: platformAppender_fields Append_example insertLog_def platformWarning_def
          world0_fields)
qed

end
